theory Spec2Isabelle
  imports Main "HOL-Library.Sublist"
begin

section \<open>The make formatter: a shallow embedding of make-formatter.py\<close>

text \<open>
  The script reads the output of \<^verbatim>\<open>make\<close> line by line, strips trailing whitespace
  and hands each line to \<^verbatim>\<open>process\<close>, which picks a handler
  (\<^verbatim>\<open>get_processing_handler\<close>) and runs it. A handler returns the text to print and
  whether to print it. This theory embeds \<^verbatim>\<open>is_error_msg\<close>,
  \<^verbatim>\<open>get_processing_handler\<close>, the eight handlers and \<^verbatim>\<open>process\<close>.

  A line is a \<^typ>\<open>string\<close>, one \<^typ>\<open>char\<close> per code point; the model therefore
  covers the lines whose code points are below 256. An exception of the Python code is
  a value \<open>Inl e\<close> of the result.
\<close>

datatype error = IndexError | ValueError

subsection \<open>The string and path operations of Python the script calls\<close>

text \<open>\<^verbatim>\<open>c.isspace()\<close> for one character: the whitespace code points below 256.\<close>

definition isspace :: "char \<Rightarrow> bool" where
  "isspace c =
     (let n = (of_char c :: nat)
      in (9 \<le> n \<and> n \<le> 13) \<or> (28 \<le> n \<and> n \<le> 32) \<or> n = 133 \<or> n = 160)"

text \<open>\<^verbatim>\<open>s.isdigit()\<close>: \<open>s\<close> is not empty and every character is a digit (the
  decimal digits and the superscripts one, two and three are the digits below 256).\<close>

definition isdigit_char :: "char \<Rightarrow> bool" where
  "isdigit_char c =
     (let n = (of_char c :: nat)
      in (48 \<le> n \<and> n \<le> 57) \<or> n = 178 \<or> n = 179 \<or> n = 185)"

definition isdigit :: "string \<Rightarrow> bool" where
  "isdigit s = (s \<noteq> [] \<and> list_all isdigit_char s)"

definition startswith :: "string \<Rightarrow> string \<Rightarrow> bool" where
  "startswith s p = prefix p s"

definition endswith :: "string \<Rightarrow> string \<Rightarrow> bool" where
  "endswith s p = suffix p s"

text \<open>\<^verbatim>\<open>s.split()\<close>: the maximal runs of non-whitespace characters, in order.
  The first argument of \<open>split_from\<close> is the run read so far.\<close>

fun split_from :: "string \<Rightarrow> string \<Rightarrow> string list" where
  "split_from w [] = (if w = [] then [] else [w])"
| "split_from w (c # cs) =
     (if isspace c then (if w = [] then split_from [] cs else w # split_from [] cs)
      else split_from (w @ [c]) cs)"

definition str_split :: "string \<Rightarrow> string list" where
  "str_split s = split_from [] s"

text \<open>\<^verbatim>\<open>s.split(sep)\<close> for a separator of one character: empty pieces are kept.\<close>

fun split_on :: "char \<Rightarrow> string \<Rightarrow> string list" where
  "split_on sep [] = [[]]"
| "split_on sep (c # cs) =
     (if c = sep then [] # split_on sep cs
      else (case split_on sep cs of [] \<Rightarrow> [[c]] | w # ws \<Rightarrow> (c # w) # ws))"

text \<open>\<^verbatim>\<open>s.strip()\<close>: whitespace removed at both ends.\<close>

definition str_strip :: "string \<Rightarrow> string" where
  "str_strip s = rev (dropWhile isspace (rev (dropWhile isspace s)))"

text \<open>\<^verbatim>\<open>s.count(sub)\<close>: the number of non-overlapping occurrences of \<open>sub\<close>, scanning
  from the left; for the empty \<open>sub\<close>, one more than the length.\<close>

function str_count :: "string \<Rightarrow> string \<Rightarrow> nat" where
  "str_count s sub =
     (if sub = [] then length s + 1
      else if length s < length sub then 0
      else if prefix sub s then 1 + str_count (drop (length sub) s) sub
      else str_count (tl s) sub)"
  by pat_completeness auto
termination
proof (relation "measure (\<lambda>(s, sub). length s)")
  fix s sub :: string
  assume "sub \<noteq> []" and "\<not> length s < length sub"
  then have "0 < length sub" and "0 < length s"
    by (cases sub; cases s; simp)+
  then show "((drop (length sub) s, sub), s, sub) \<in> measure (\<lambda>(s, sub). length s)"
    and "((tl s, sub), s, sub) \<in> measure (\<lambda>(s, sub). length s)"
    by simp_all
qed simp

declare str_count.simps [simp del]

text \<open>\<^verbatim>\<open>s.replace(old, new)\<close>: every non-overlapping occurrence of \<open>old\<close>, scanning
  from the left, becomes \<open>new\<close>; for the empty \<open>old\<close>, \<open>new\<close> is put before every
  character and at the end.\<close>

function str_replace :: "string \<Rightarrow> string \<Rightarrow> string \<Rightarrow> string" where
  "str_replace s old new =
     (if old = [] then new @ concat (map (\<lambda>c. c # new) s)
      else if s = [] then []
      else if prefix old s then new @ str_replace (drop (length old) s) old new
      else hd s # str_replace (tl s) old new)"
  by pat_completeness auto
termination
proof (relation "measure (\<lambda>(s, old, new). length s)")
  fix s old new :: string
  assume "old \<noteq> []" and "s \<noteq> []"
  then have "0 < length old" and "0 < length s"
    by simp_all
  then show "((drop (length old) s, old, new), s, old, new) \<in> measure (\<lambda>(s, old, new). length s)"
    and "((tl s, old, new), s, old, new) \<in> measure (\<lambda>(s, old, new). length s)"
    by simp_all
qed simp

declare str_replace.simps [simp del]

text \<open>\<^verbatim>\<open>sep.join(xs)\<close>.\<close>

fun join :: "string \<Rightarrow> string list \<Rightarrow> string" where
  "join sep [] = []"
| "join sep [x] = x"
| "join sep (x # y # ys) = x @ sep @ join sep (y # ys)"

text \<open>\<^verbatim>\<open>xs.index(x)\<close>: the first position of \<open>x\<close>, ValueError when there is none.\<close>

fun index :: "'a list \<Rightarrow> 'a \<Rightarrow> error + nat" where
  "index [] x = Inl ValueError"
| "index (y # ys) x =
     (if y = x then Inr 0
      else (case index ys x of Inl e \<Rightarrow> Inl e | Inr i \<Rightarrow> Inr (Suc i)))"

text \<open>\<^verbatim>\<open>xs[i]\<close> for an index that is not negative: IndexError beyond the end.\<close>

definition getitem :: "'a list \<Rightarrow> nat \<Rightarrow> error + 'a" where
  "getitem xs i = (if i < length xs then Inr (xs ! i) else Inl IndexError)"

text \<open>\<^verbatim>\<open>os.path.basename\<close> (posixpath): what follows the last slash.\<close>

definition basename :: "string \<Rightarrow> string" where
  "basename p = rev (takeWhile (\<lambda>c. c \<noteq> CHR ''/'') (rev p))"

text \<open>\<^verbatim>\<open>os.path.normpath\<close> (posixpath). \<open>norm_step\<close> is the body of its loop over
  the components, \<open>initial_slashes\<close> the number of leading slashes that are kept.\<close>

definition initial_slashes :: "string \<Rightarrow> nat" where
  "initial_slashes path =
     (if \<not> startswith path ''/'' then 0
      else if startswith path ''//'' \<and> \<not> startswith path ''///'' then 2
      else 1)"

definition norm_step :: "nat \<Rightarrow> string list \<Rightarrow> string \<Rightarrow> string list" where
  "norm_step ini new_comps cmp =
     (if cmp = [] \<or> cmp = ''.'' then new_comps
      else if cmp \<noteq> ''..'' \<or> (ini = 0 \<and> new_comps = [])
              \<or> (new_comps \<noteq> [] \<and> last new_comps = ''..'')
           then new_comps @ [cmp]
      else if new_comps \<noteq> [] then butlast new_comps
      else new_comps)"

definition normpath :: "string \<Rightarrow> string" where
  "normpath path =
     (if path = [] then ''.''
      else
        let ini = initial_slashes path;
            comps = foldl (norm_step ini) [] (split_on CHR ''/'' path);
            p = replicate ini CHR ''/'' @ join ''/'' comps
        in if p = [] then ''.'' else p)"

subsection \<open>Key symbols and prefixes\<close>

definition K_SHAREDLIB :: string where "K_SHAREDLIB = ''.so''"
definition K_OBJ :: string where "K_OBJ = ''.o''"
definition K_CPP :: string where "K_CPP = ''.cc''"
definition K_ASM :: string where "K_ASM = ''.s''"
definition K_COMPILE :: string where "K_COMPILE = '' -c''"
definition K_OUTPUT :: string where "K_OUTPUT = '' -o''"
definition K_FPIC :: string where "K_FPIC = '' -fPIC''"
definition K_PREPAR :: string where "K_PREPAR = ''Preparation: ''"
definition K_STARS :: string where "K_STARS = ''***''"
definition K_MAKEDONE :: string where "K_MAKEDONE = ''make: DONE ''"

definition PREFIX_COMPILE :: string where
  "PREFIX_COMPILE = CHR 0x1B # ''[38;5;220m[Compile]'' @ CHR 0x1B # ''[0m''"
definition PREFIX_LINK :: string where
  "PREFIX_LINK = CHR 0x1B # ''[38;5;45m[Link]'' @ CHR 0x1B # ''[0m''"
definition PREFIX_COMPLINK :: string where
  "PREFIX_COMPLINK = CHR 0x1B # ''[38;5;41m[Compile + Link]'' @ CHR 0x1B # ''[0m''"
definition PREFIX_SHAREDLIB :: string where
  "PREFIX_SHAREDLIB = CHR 0x1B # ''[38;5;225m[Library]'' @ CHR 0x1B # ''[0m''"

lemmas key_defs =
  K_SHAREDLIB_def K_OBJ_def K_CPP_def K_ASM_def K_COMPILE_def K_OUTPUT_def K_FPIC_def
  K_PREPAR_def K_STARS_def K_MAKEDONE_def

lemmas prefix_defs =
  PREFIX_COMPILE_def PREFIX_LINK_def PREFIX_COMPLINK_def PREFIX_SHAREDLIB_def

subsection \<open>The handlers\<close>

text \<open>Each handler takes the line and returns the processed line and whether it is
  printed. \<open>output_target\<close> is the lookup three of them share:
  \<^verbatim>\<open>line_split.index(K_OUTPUT.strip()) + 1\<close>.\<close>

definition output_index :: "string list \<Rightarrow> error + nat" where
  "output_index line_split =
     (case index line_split (str_strip K_OUTPUT) of
        Inl e \<Rightarrow> Inl e
      | Inr i \<Rightarrow> Inr (i + 1))"

definition source_files :: "string list \<Rightarrow> string list" where
  "source_files line_split =
     [basename (str_replace item K_CPP K_OBJ). item \<leftarrow> line_split, endswith item K_CPP]
     @ [basename (str_replace item K_ASM K_OBJ). item \<leftarrow> line_split, endswith item K_ASM]"

definition handle_compile_only :: "string \<Rightarrow> error + (string \<times> bool)" where
  "handle_compile_only line =
     (let line_split = str_split line in
      if str_count line (str_strip K_OUTPUT) \<noteq> 0 then
        (case output_index line_split of
           Inl e \<Rightarrow> Inl e
         | Inr obj_file_index \<Rightarrow>
             (case getitem line_split obj_file_index of
                Inl e \<Rightarrow> Inl e
              | Inr t \<Rightarrow> Inr (PREFIX_COMPILE @ '' => '' @ t, True)))
      else Inr (PREFIX_COMPILE @ '' => '' @ join '' '' (source_files line_split), True))"

definition handle_convert_obj_to_so :: "string \<Rightarrow> error + (string \<times> bool)" where
  "handle_convert_obj_to_so line =
     (let line_split = str_split line in
      case output_index line_split of
        Inl e \<Rightarrow> Inl e
      | Inr so_file_index \<Rightarrow>
          (case getitem line_split so_file_index of
             Inl e \<Rightarrow> Inl e
           | Inr t \<Rightarrow> Inr (PREFIX_SHAREDLIB @ '' => '' @ normpath t, True)))"

definition handle_compile_and_link :: "string \<Rightarrow> error + (string \<times> bool)" where
  "handle_compile_and_link line =
     (let line_split = str_split line in
      case output_index line_split of
        Inl e \<Rightarrow> Inl e
      | Inr exe_file_index \<Rightarrow>
          if exe_file_index \<ge> length line_split then Inr (PREFIX_COMPLINK @ '' => a.out'', True)
          else (case getitem line_split exe_file_index of
                  Inl e \<Rightarrow> Inl e
                | Inr t \<Rightarrow> Inr (PREFIX_COMPLINK @ '' => '' @ normpath t, True)))"

definition handle_link_only :: "string \<Rightarrow> error + (string \<times> bool)" where
  "handle_link_only line =
     (let line_split = str_split line in
      case output_index line_split of
        Inl e \<Rightarrow> Inl e
      | Inr exe_file_index \<Rightarrow>
          if exe_file_index \<ge> length line_split then Inr (PREFIX_LINK @ '' => a.out'', True)
          else (case getitem line_split exe_file_index of
                  Inl e \<Rightarrow> Inl e
                | Inr t \<Rightarrow> Inr (PREFIX_LINK @ '' => '' @ normpath t, True)))"

definition handle_preparation_msg :: "string \<Rightarrow> error + (string \<times> bool)" where
  "handle_preparation_msg line = Inr ([], False)"

definition handle_separator :: "string \<Rightarrow> error + (string \<times> bool)" where
  "handle_separator line = Inr ([], False)"

definition handler_makedone_message :: "string \<Rightarrow> error + (string \<times> bool)" where
  "handler_makedone_message line = Inr ([], False)"

definition handle_passthrough :: "string \<Rightarrow> error + (string \<times> bool)" where
  "handle_passthrough line = Inr (line, True)"

subsection \<open>Classification\<close>

text \<open>\<open>is_error_msg\<close>: is the line a warning or error message of some tool? The
  script reads \<^verbatim>\<open>line[0]\<close> and \<^verbatim>\<open>line.split()[0]\<close>; both raise IndexError
  when there is nothing to read. The second test of the compiler check reads the line,
  not its first token, as the script does.\<close>

definition is_error_msg :: "string \<Rightarrow> error + bool" where
  "is_error_msg line =
     (case line of
        [] \<Rightarrow> Inl IndexError
      | c # _ \<Rightarrow>
          if isspace c then Inr True
          else if startswith line K_STARS \<or> startswith line K_MAKEDONE
                  \<or> str_count line K_PREPAR \<noteq> 0 then Inr False
          else
            (case str_split line of
               [] \<Rightarrow> Inl IndexError
             | first # _ \<Rightarrow>
                 if endswith first ''g++'' \<or> endswith line ''gcc'' then Inr False
                 else if first = ''ld'' \<or> first = ''ar'' \<or> first = ''gold'' then Inr False
                 else if str_count first ''-'' = 1 then
                   (case split_on CHR ''-'' first of
                      e1 # e2 # _ \<Rightarrow>
                        if (endswith e1 ''g++'' \<or> endswith e1 ''gcc'') \<and> isdigit e2
                        then Inr False else Inr True
                    | _ \<Rightarrow> Inl IndexError)
                 else Inr True))"

text \<open>The handlers as values, since \<open>get_processing_handler\<close> returns one.\<close>

datatype handler =
    Passthrough
  | Compile_only
  | Convert_obj_to_so
  | Compile_and_link
  | Link_only
  | Preparation_msg
  | Separator
  | Makedone_message

fun run_handler :: "handler \<Rightarrow> string \<Rightarrow> error + (string \<times> bool)" where
  "run_handler Passthrough = handle_passthrough"
| "run_handler Compile_only = handle_compile_only"
| "run_handler Convert_obj_to_so = handle_convert_obj_to_so"
| "run_handler Compile_and_link = handle_compile_and_link"
| "run_handler Link_only = handle_link_only"
| "run_handler Preparation_msg = handle_preparation_msg"
| "run_handler Separator = handle_separator"
| "run_handler Makedone_message = handler_makedone_message"

text \<open>The checks after the first one, on a line that is not empty and not an error
  message.\<close>

definition later_rules :: "string \<Rightarrow> handler" where
  "later_rules line =
     (if str_count line K_COMPILE \<noteq> 0 then Compile_only
      else if str_count line K_FPIC \<noteq> 0 then Convert_obj_to_so
      else if str_count line K_OUTPUT \<noteq> 0 then
        (if str_count line K_CPP \<noteq> 0 \<or> str_count line K_ASM \<noteq> 0 then Compile_and_link
         else Link_only)
      else if str_count line K_PREPAR \<noteq> 0 then Preparation_msg
      else if str_count line K_STARS \<noteq> 0 then Separator
      else if str_count line K_MAKEDONE \<noteq> 0 then Makedone_message
      else Passthrough)"

definition get_processing_handler :: "string \<Rightarrow> error + handler" where
  "get_processing_handler line =
     (if length line = 0 then Inr Passthrough
      else (case is_error_msg line of
              Inl e \<Rightarrow> Inl e
            | Inr True \<Rightarrow> Inr Passthrough
            | Inr False \<Rightarrow> Inr (later_rules line)))"

text \<open>\<open>process\<close>, with the switch \<^verbatim>\<open>enable\<close> as its first argument.\<close>

definition process :: "bool \<Rightarrow> string \<Rightarrow> error + (string \<times> bool)" where
  "process enable line =
     (if \<not> enable then Inr (line, True)
      else (case get_processing_handler line of
              Inl e \<Rightarrow> Inl e
            | Inr h \<Rightarrow> run_handler h line))"

section \<open>Properties\<close>

subsection \<open>Facts about the string operations\<close>

text \<open>The script tests \<^verbatim>\<open>line.count(K) != 0\<close> to see whether a line contains a marker.
  For a marker that is not empty this is containment as a contiguous piece.\<close>

lemma str_count_nonzero_iff:
  "sub \<noteq> [] \<Longrightarrow> str_count s sub \<noteq> 0 \<longleftrightarrow> sublist sub s"
proof (induction s sub rule: str_count.induct)
  case (1 s sub)
  show ?case
  proof (cases "length s < length sub")
    case True
    then have "\<not> sublist sub s"
      using sublist_length_le [of sub s] by auto
    with True 1(3) show ?thesis
      by (simp add: str_count.simps [of s sub])
  next
    case long: False
    show ?thesis
    proof (cases "prefix sub s")
      case True
      with long 1(3) show ?thesis
        by (simp add: str_count.simps [of s sub])
    next
      case False
      from long 1(3) obtain c cs where s: "s = c # cs"
        by (cases s) auto
      from False s have "sublist sub s \<longleftrightarrow> sublist sub (tl s)"
        by (simp add: sublist_Cons_right)
      moreover have "str_count s sub = str_count (tl s) sub"
        using long False 1(3) by (simp add: str_count.simps [of s sub])
      ultimately show ?thesis
        using 1(2) [OF 1(3) long False] 1(3) by simp
    qed
  qed
qed

lemma str_count_zero_iff:
  "sub \<noteq> [] \<Longrightarrow> str_count s sub = 0 \<longleftrightarrow> \<not> sublist sub s"
  using str_count_nonzero_iff [of sub s] by blast

lemma contains_marker:
  "str_count s K_COMPILE \<noteq> 0 \<longleftrightarrow> sublist K_COMPILE s"
  "str_count s K_FPIC \<noteq> 0 \<longleftrightarrow> sublist K_FPIC s"
  "str_count s K_OUTPUT \<noteq> 0 \<longleftrightarrow> sublist K_OUTPUT s"
  "str_count s K_CPP \<noteq> 0 \<longleftrightarrow> sublist K_CPP s"
  "str_count s K_ASM \<noteq> 0 \<longleftrightarrow> sublist K_ASM s"
  "str_count s K_PREPAR \<noteq> 0 \<longleftrightarrow> sublist K_PREPAR s"
  "str_count s K_STARS \<noteq> 0 \<longleftrightarrow> sublist K_STARS s"
  "str_count s K_MAKEDONE \<noteq> 0 \<longleftrightarrow> sublist K_MAKEDONE s"
  by (rule str_count_nonzero_iff, simp add: key_defs)+

text \<open>The later checks and the first check, read with containment.\<close>

lemma later_rules_contains:
  "later_rules line =
     (if sublist K_COMPILE line then Compile_only
      else if sublist K_FPIC line then Convert_obj_to_so
      else if sublist K_OUTPUT line then
        (if sublist K_CPP line \<or> sublist K_ASM line then Compile_and_link else Link_only)
      else if sublist K_PREPAR line then Preparation_msg
      else if sublist K_STARS line then Separator
      else if sublist K_MAKEDONE line then Makedone_message
      else Passthrough)"
  unfolding later_rules_def contains_marker ..

lemma marked_line_is_no_error_msg:
  assumes "line \<noteq> []" and "\<not> isspace (hd line)"
    and "startswith line K_STARS \<or> startswith line K_MAKEDONE \<or> sublist K_PREPAR line"
  shows "is_error_msg line = Inr False"
proof -
  from assms(1,2) obtain c cs where l: "line = c # cs" and c: "\<not> isspace c"
    by (cases line) auto
  from assms(3) have "startswith line K_STARS \<or> startswith line K_MAKEDONE
      \<or> str_count line K_PREPAR \<noteq> 0"
    unfolding contains_marker .
  with c show ?thesis
    unfolding is_error_msg_def l by simp
qed

lemma no_error_msg_nonempty: "is_error_msg line = Inr False \<Longrightarrow> line \<noteq> []"
  by (auto simp: is_error_msg_def)

lemma strip_K_OUTPUT: "str_strip K_OUTPUT = ''-o''"
  by code_simp

lemma index_first_at_end:
  "x \<notin> set ts \<Longrightarrow> index (ts @ [x]) x = Inr (length ts)"
  by (induction ts) auto

lemma index_Inr_iff: "(\<exists>i. index xs x = Inr i) \<longleftrightarrow> x \<in> set xs"
  by (induction xs) (auto split: sum.splits)

lemma handler_invisible_empty:
  "run_handler h line = Inr (text, False) \<Longrightarrow> text = []"
  by (cases h)
     (auto simp: handle_passthrough_def handle_compile_only_def handle_convert_obj_to_so_def
        handle_compile_and_link_def handle_link_only_def handle_preparation_msg_def
        handle_separator_def handler_makedone_message_def Let_def
        split: sum.splits if_splits)

subsection \<open>Lines that start with whitespace\<close>

text \<open>
  Claim C7. A line that is not empty and whose first character is whitespace is an error
  message for \<open>is_error_msg\<close> (the category Diagnostic), gets the passthrough handler,
  and \<open>process\<close> returns the line itself, to be printed.
\<close>

theorem leading_whitespace_is_diagnostic:
  assumes "line \<noteq> []" and "isspace (hd line)"
  shows "is_error_msg line = Inr True
         \<and> get_processing_handler line = Inr Passthrough
         \<and> process True line = Inr (line, True)"
proof -
  from assms obtain c cs where "line = c # cs" and "isspace c"
    by (cases line) auto
  then have e: "is_error_msg line = Inr True"
    by (simp add: is_error_msg_def)
  with assms(1) have h: "get_processing_handler line = Inr Passthrough"
    by (simp add: get_processing_handler_def)
  from e h show ?thesis
    by (simp add: process_def handle_passthrough_def)
qed

theorem leading_whitespace_is_diagnostic_witness:
  "''  note: see below'' \<noteq> [] \<and> isspace (hd ''  note: see below'')
   \<and> is_error_msg ''  note: see below'' = Inr True
   \<and> get_processing_handler ''  note: see below'' = Inr Passthrough
   \<and> process True ''  note: see below'' = Inr (''  note: see below'', True)"
proof -
  have a: "''  note: see below'' \<noteq> []" by simp
  have b: "isspace (hd ''  note: see below'')" by code_simp
  from a b leading_whitespace_is_diagnostic [OF a b] show ?thesis by blast
qed

subsection \<open>The versioned compiler name\<close>

text \<open>
  Claim C8. On the line \<^verbatim>\<open>g++-9 -c foo.cc\<close> the first token is \<^verbatim>\<open>g++-9\<close>; it has
  one hyphen, with the compiler name \<^verbatim>\<open>g++\<close> before it and the digits \<^verbatim>\<open>9\<close> after
  it. \<open>is_error_msg\<close> answers no, and the handler is the one for compile-only lines.
\<close>

theorem versioned_compiler_line:
  "str_split ''g++-9 -c foo.cc'' = [''g++-9'', ''-c'', ''foo.cc'']
   \<and> split_on CHR ''-'' ''g++-9'' = [''g++'', ''9'']
   \<and> is_error_msg ''g++-9 -c foo.cc'' = Inr False
   \<and> get_processing_handler ''g++-9 -c foo.cc'' = Inr Compile_only"
  by code_simp

subsection \<open>A suppressed line carries no text\<close>

text \<open>
  Claim C9. Whatever the line and whatever the switch \<^verbatim>\<open>enable\<close>: when \<open>process\<close>
  returns a result that is not to be printed, its text is the empty string.
\<close>

theorem invisible_result_is_empty:
  "process enable line = Inr (text, visible) \<Longrightarrow> \<not> visible \<Longrightarrow> text = []"
  by (auto simp: process_def split: if_splits sum.splits dest: handler_invisible_empty)

theorem invisible_result_is_empty_witness:
  "\<exists>text visible. process True ''***'' = Inr (text, visible) \<and> \<not> visible \<and> text = []"
proof -
  have a: "process True ''***'' = Inr ([], False)" by code_simp
  have b: "\<not> False" by simp
  from a b invisible_result_is_empty [OF a b] show ?thesis by blast
qed

subsection \<open>Lines with the output marker\<close>

lemma later_rules_output:
  assumes "\<not> sublist K_COMPILE line" and "\<not> sublist K_FPIC line" and "sublist K_OUTPUT line"
  shows "later_rules line =
           (if sublist K_CPP line \<or> sublist K_ASM line then Compile_and_link else Link_only)"
  using assms by (simp add: later_rules_contains)

text \<open>
  Claim C6. Take a line that is not empty and not an error message for \<open>is_error_msg\<close>,
  that contains neither the compile marker \<^verbatim>\<open> -c\<close> nor the marker \<^verbatim>\<open> -fPIC\<close> and
  that contains the output marker \<^verbatim>\<open> -o\<close>. When it also contains \<^verbatim>\<open>.cc\<close> or
  \<^verbatim>\<open>.s\<close>, its handler is the compile-and-link one, otherwise the link-only one. In
  particular the line \<^verbatim>\<open>ld -o final a.o b.o\<close> is link-only and is rendered as the
  link prefix followed by \<^verbatim>\<open> => final\<close>.
\<close>

theorem output_marker_selects_link_handler:
  "(line \<noteq> [] \<and> is_error_msg line = Inr False
      \<and> \<not> sublist K_COMPILE line \<and> \<not> sublist K_FPIC line \<and> sublist K_OUTPUT line
     \<longrightarrow> get_processing_handler line =
           Inr (if sublist K_CPP line \<or> sublist K_ASM line then Compile_and_link
                else Link_only))
   \<and> is_error_msg ''ld -o final a.o b.o'' = Inr False
   \<and> get_processing_handler ''ld -o final a.o b.o'' = Inr Link_only
   \<and> process True ''ld -o final a.o b.o'' = Inr (PREFIX_LINK @ '' => final'', True)"
proof -
  have "get_processing_handler line =
           Inr (if sublist K_CPP line \<or> sublist K_ASM line then Compile_and_link
                else Link_only)"
    if "line \<noteq> []" and "is_error_msg line = Inr False"
      and "\<not> sublist K_COMPILE line" and "\<not> sublist K_FPIC line" and "sublist K_OUTPUT line"
    using that by (simp add: get_processing_handler_def later_rules_output)
  moreover have "is_error_msg ''ld -o final a.o b.o'' = Inr False"
    by code_simp
  moreover have "get_processing_handler ''ld -o final a.o b.o'' = Inr Link_only"
    by code_simp
  moreover have "process True ''ld -o final a.o b.o'' = Inr (PREFIX_LINK @ '' => final'', True)"
    by code_simp
  ultimately show ?thesis by blast
qed

theorem output_marker_selects_link_handler_witness:
  "''g++ -o myprog a.cc b.cc'' \<noteq> [] \<and> is_error_msg ''g++ -o myprog a.cc b.cc'' = Inr False
   \<and> \<not> sublist K_COMPILE ''g++ -o myprog a.cc b.cc''
   \<and> \<not> sublist K_FPIC ''g++ -o myprog a.cc b.cc''
   \<and> sublist K_OUTPUT ''g++ -o myprog a.cc b.cc''
   \<and> sublist K_CPP ''g++ -o myprog a.cc b.cc''
   \<and> get_processing_handler ''g++ -o myprog a.cc b.cc'' = Inr Compile_and_link"
proof -
  have a: "''g++ -o myprog a.cc b.cc'' \<noteq> []" by simp
  have b: "is_error_msg ''g++ -o myprog a.cc b.cc'' = Inr False" by code_simp
  have c: "\<not> sublist K_COMPILE ''g++ -o myprog a.cc b.cc''" by code_simp
  have d: "\<not> sublist K_FPIC ''g++ -o myprog a.cc b.cc''" by code_simp
  have e: "sublist K_OUTPUT ''g++ -o myprog a.cc b.cc''" by code_simp
  have f: "sublist K_CPP ''g++ -o myprog a.cc b.cc''" by code_simp
  from a b c d e f output_marker_selects_link_handler [of "''g++ -o myprog a.cc b.cc''"]
  show ?thesis by simp
qed

subsection \<open>Nothing after the output flag\<close>

lemma output_index_last:
  assumes "str_split line = ts @ [''-o'']" and "''-o'' \<notin> set ts"
  shows "output_index (str_split line) = Inr (length (str_split line))"
  using assms by (simp add: output_index_def strip_K_OUTPUT index_first_at_end)

text \<open>
  Claim C5, as the script has it. Take a line whose handler is the compile-and-link or
  the link-only one, whose last token is the output flag \<^verbatim>\<open>-o\<close> and which has no
  token \<^verbatim>\<open>-o\<close> before the last one. Then \<open>process\<close> does not fail: it returns the
  prefix of the handler followed by \<^verbatim>\<open> => a.out\<close>, to be printed.
\<close>

theorem missing_output_name_falls_back:
  assumes "get_processing_handler line = Inr h"
    and "h = Compile_and_link \<or> h = Link_only"
    and "str_split line = ts @ [''-o'']" and "''-o'' \<notin> set ts"
  shows "process True line =
           Inr ((if h = Compile_and_link then PREFIX_COMPLINK else PREFIX_LINK) @ '' => a.out'',
                True)"
  using assms(1,2) output_index_last [OF assms(3,4)]
  by (auto simp: process_def handle_compile_and_link_def handle_link_only_def Let_def)

theorem missing_output_name_falls_back_witness:
  "get_processing_handler ''g++ main.cc -o'' = Inr Compile_and_link
   \<and> str_split ''g++ main.cc -o'' = [''g++'', ''main.cc''] @ [''-o'']
   \<and> ''-o'' \<notin> set [''g++'', ''main.cc'']
   \<and> process True ''g++ main.cc -o'' = Inr (PREFIX_COMPLINK @ '' => a.out'', True)"
proof -
  have a: "get_processing_handler ''g++ main.cc -o'' = Inr Compile_and_link" by code_simp
  have b: "Compile_and_link = Compile_and_link \<or> Compile_and_link = Link_only" by simp
  have c: "str_split ''g++ main.cc -o'' = [''g++'', ''main.cc''] @ [''-o'']" by code_simp
  have d: "''-o'' \<notin> set [''g++'', ''main.cc'']" by simp
  from a c d missing_output_name_falls_back [OF a b c d] show ?thesis by simp
qed

text \<open>
  That the flag is the last token is not enough: the handlers look up the first token
  \<^verbatim>\<open>-o\<close>. The line \<^verbatim>\<open>ld -o x.o -o\<close> is link-only and its last token is the flag,
  but the first \<^verbatim>\<open>-o\<close> is followed by \<^verbatim>\<open>x.o\<close>, and that name is rendered, not
  \<^verbatim>\<open>a.out\<close>.
\<close>

theorem flag_last_but_repeated_counterexample:
  "get_processing_handler ''ld -o x.o -o'' = Inr Link_only
   \<and> str_split ''ld -o x.o -o'' = [''ld'', ''-o'', ''x.o'', ''-o'']
   \<and> last (str_split ''ld -o x.o -o'') = ''-o''
   \<and> process True ''ld -o x.o -o'' = Inr (PREFIX_LINK @ '' => x.o'', True)
   \<and> process True ''ld -o x.o -o'' \<noteq> Inr (PREFIX_LINK @ '' => a.out'', True)"
  by code_simp

subsection \<open>Lines with the preparation, separator or make-done marker\<close>

text \<open>
  Claim C2, as the script has it. A line that contains one of the three markers is
  suppressed (empty text, not printed) when \<open>is_error_msg\<close> does not take it for an
  error message and it contains none of the markers \<^verbatim>\<open> -c\<close>, \<^verbatim>\<open> -fPIC\<close> and
  \<^verbatim>\<open> -o\<close>, which are tested first. By \<open>marked_line_is_no_error_msg\<close> the condition
  on \<open>is_error_msg\<close> holds for a line that does not start with whitespace and starts
  with the separator or the make-done marker or contains the preparation marker.
\<close>

theorem marker_line_suppressed:
  assumes "sublist K_PREPAR line \<or> sublist K_STARS line \<or> sublist K_MAKEDONE line"
    and "is_error_msg line = Inr False"
    and "\<not> sublist K_COMPILE line" and "\<not> sublist K_FPIC line" and "\<not> sublist K_OUTPUT line"
  shows "process True line = Inr ([], False)"
proof -
  from assms(2) have "line \<noteq> []"
    by (rule no_error_msg_nonempty)
  with assms(2) have "get_processing_handler line = Inr (later_rules line)"
    by (simp add: get_processing_handler_def)
  moreover from assms(1,3,4,5)
  have "later_rules line \<in> {Preparation_msg, Separator, Makedone_message}"
    by (auto simp: later_rules_contains)
  ultimately show ?thesis
    by (auto simp: process_def handle_preparation_msg_def handle_separator_def
        handler_makedone_message_def)
qed

theorem marker_line_suppressed_witness:
  "sublist K_MAKEDONE ''make: DONE all targets''
   \<and> is_error_msg ''make: DONE all targets'' = Inr False
   \<and> \<not> sublist K_COMPILE ''make: DONE all targets''
   \<and> \<not> sublist K_FPIC ''make: DONE all targets''
   \<and> \<not> sublist K_OUTPUT ''make: DONE all targets''
   \<and> process True ''make: DONE all targets'' = Inr ([], False)"
proof -
  have a: "sublist K_MAKEDONE ''make: DONE all targets''" by code_simp
  then have a': "sublist K_PREPAR ''make: DONE all targets''
     \<or> sublist K_STARS ''make: DONE all targets'' \<or> sublist K_MAKEDONE ''make: DONE all targets''"
    by simp
  have b: "is_error_msg ''make: DONE all targets'' = Inr False" by code_simp
  have c: "\<not> sublist K_COMPILE ''make: DONE all targets''" by code_simp
  have d: "\<not> sublist K_FPIC ''make: DONE all targets''" by code_simp
  have e: "\<not> sublist K_OUTPUT ''make: DONE all targets''" by code_simp
  from a b c d e marker_line_suppressed [OF a' b c d e] show ?thesis by simp
qed

text \<open>
  Containing a marker and not starting with whitespace is not enough: the line
  \<^verbatim>\<open>make: *** [all] Error 1\<close> contains the separator marker, but not at its start, and
  its first token is no compiler; it is an error message and is printed as it is.
\<close>

theorem marker_line_shown_counterexample:
  "sublist K_STARS ''make: *** [all] Error 1''
   \<and> \<not> isspace (hd ''make: *** [all] Error 1'')
   \<and> process True ''make: *** [all] Error 1'' = Inr (''make: *** [all] Error 1'', True)"
  by code_simp

subsection \<open>Compile-only lines without the output flag\<close>

lemma output_index_absent:
  "''-o'' \<notin> set ts \<Longrightarrow> output_index ts = Inl ValueError"
proof -
  assume "''-o'' \<notin> set ts"
  then have "\<nexists>i. index ts ''-o'' = Inr i"
    by (simp add: index_Inr_iff)
  then have "index ts ''-o'' = Inl ValueError"
    by (induction ts) (auto split: sum.splits if_splits)
  then show ?thesis
    by (simp add: output_index_def strip_K_OUTPUT)
qed

lemma comprehension_map_filter:
  "concat (map (\<lambda>x. if P x then [f x] else []) xs) = map f (filter P xs)"
  by (induction xs) simp_all

lemma source_files_map_filter:
  "source_files ts =
     map (\<lambda>t. basename (str_replace t K_CPP K_OBJ)) (filter (\<lambda>t. endswith t K_CPP) ts)
     @ map (\<lambda>t. basename (str_replace t K_ASM K_OBJ)) (filter (\<lambda>t. endswith t K_ASM) ts)"
  unfolding source_files_def by (simp only: comprehension_map_filter)

text \<open>
  Claim C10. Take a compile-only line with no token \<^verbatim>\<open>-o\<close> that \<open>process\<close> renders.
  The names after the arrow are, first, those made from the tokens that end in
  \<^verbatim>\<open>.cc\<close>, in the order of the line, and after all of them those made from the tokens
  that end in \<^verbatim>\<open>.s\<close>, in the order of the line: where a \<^verbatim>\<open>.s\<close> token stands among
  the \<^verbatim>\<open>.cc\<close> tokens in the line makes no difference. The result is printed.
\<close>

theorem compile_only_names_cc_before_asm:
  assumes "get_processing_handler line = Inr Compile_only"
    and "''-o'' \<notin> set (str_split line)"
    and "process True line = Inr (text, visible)"
  shows "text = PREFIX_COMPILE @ '' => '' @ join '' ''
            (map (\<lambda>t. basename (str_replace t K_CPP K_OBJ))
               (filter (\<lambda>t. endswith t K_CPP) (str_split line))
             @ map (\<lambda>t. basename (str_replace t K_ASM K_OBJ))
                 (filter (\<lambda>t. endswith t K_ASM) (str_split line)))
         \<and> visible"
proof -
  from assms(1,3) have r: "handle_compile_only line = Inr (text, visible)"
    by (simp add: process_def)
  have "str_count line (str_strip K_OUTPUT) = 0"
  proof (rule ccontr)
    assume "str_count line (str_strip K_OUTPUT) \<noteq> 0"
    then have "handle_compile_only line = Inl ValueError"
      using output_index_absent [OF assms(2)] by (simp add: handle_compile_only_def)
    with r show False by simp
  qed
  with r have "text = PREFIX_COMPILE @ '' => '' @ join '' '' (source_files (str_split line))"
    and visible
    by (simp_all add: handle_compile_only_def)
  then show ?thesis
    by (simp only: source_files_map_filter simp_thms)
qed

theorem compile_only_names_cc_before_asm_witness:
  "get_processing_handler ''g++ -c boot.s src/main.cc'' = Inr Compile_only
   \<and> ''-o'' \<notin> set (str_split ''g++ -c boot.s src/main.cc'')
   \<and> process True ''g++ -c boot.s src/main.cc''
       = Inr (PREFIX_COMPILE @ '' => main.o boot.o'', True)"
proof -
  have a: "get_processing_handler ''g++ -c boot.s src/main.cc'' = Inr Compile_only"
    by code_simp
  have b: "''-o'' \<notin> set (str_split ''g++ -c boot.s src/main.cc'')"
    by code_simp
  have c: "process True ''g++ -c boot.s src/main.cc''
       = Inr (PREFIX_COMPILE @ '' => main.o boot.o'', True)"
    by code_simp
  from a b c compile_only_names_cc_before_asm [OF a b c] show ?thesis by blast
qed

text \<open>
  Claim C4. Each name is made by \<^verbatim>\<open>item.replace\<close>, which rewrites every occurrence
  of the suffix string in the token, not only the one at its end. Where the suffix string
  occurs only at the end of the token the result is the token with its suffix rewritten
  (\<open>str_replace_suffix_only\<close>). On the line \<^verbatim>\<open>g++ -c boot.start.s\<close>, a compile-only
  line with no token \<^verbatim>\<open>-o\<close> and the one source token \<^verbatim>\<open>boot.start.s\<close>, the text is
  the compile prefix followed by \<^verbatim>\<open> => boot.otart.o\<close>, which is not the base name with
  its suffix rewritten, \<^verbatim>\<open>boot.start.o\<close>.
\<close>

theorem compile_only_rewrites_inner_suffix:
  "get_processing_handler ''g++ -c boot.start.s'' = Inr Compile_only
   \<and> ''-o'' \<notin> set (str_split ''g++ -c boot.start.s'')
   \<and> filter (\<lambda>t. endswith t K_CPP \<or> endswith t K_ASM) (str_split ''g++ -c boot.start.s'')
       = [''boot.start.s'']
   \<and> process True ''g++ -c boot.start.s'' = Inr (PREFIX_COMPILE @ '' => boot.otart.o'', True)
   \<and> PREFIX_COMPILE @ '' => boot.otart.o'' \<noteq> PREFIX_COMPILE @ '' => boot.start.o''"
  by code_simp

lemma str_replace_suffix_only:
  assumes "\<And>u v. b @ old = u @ old @ v \<Longrightarrow> v = []" and "old \<noteq> []"
  shows "str_replace (b @ old) old new = b @ new"
  using assms
proof (induction b)
  case Nil
  then show ?case
    by (simp add: str_replace.simps [of old old new] str_replace.simps [of "[]" old new])
next
  case (Cons c b)
  have "\<not> prefix old (c # b @ old)"
  proof
    assume "prefix old (c # b @ old)"
    then obtain v where v: "(c # b) @ old = [] @ old @ v"
      by (auto simp: prefix_def)
    with Cons.prems(1) have "v = []" by blast
    with v show False by simp
  qed
  moreover have "str_replace (b @ old) old new = b @ new"
  proof (rule Cons.IH)
    fix u v assume "b @ old = u @ old @ v"
    then have "(c # b) @ old = (c # u) @ old @ v" by simp
    with Cons.prems(1) show "v = []" by blast
  qed (rule Cons.prems(2))
  ultimately show ?case
    using Cons.prems(2) by (simp add: str_replace.simps [of "c # b @ old" old new])
qed

subsection \<open>The first token \<^verbatim>\<open>gcc\<close>\<close>

text \<open>
  Claim C1. The second half of the compiler test of \<open>is_error_msg\<close> reads
  \<^verbatim>\<open>line.endswith("gcc")\<close>: it looks at the end of the line, not of the first token.
  The line \<^verbatim>\<open>gcc -c foo.c\<close> does not start with whitespace or with a marker and does
  not contain the preparation marker; its first token \<^verbatim>\<open>gcc\<close> ends with \<^verbatim>\<open>gcc\<close>.
  Still \<open>is_error_msg\<close> answers yes and the line is passed through, while the same
  line with \<^verbatim>\<open>g++\<close> or \<^verbatim>\<open>gcc-7\<close> as its first token is no error message.
\<close>

theorem gcc_line_is_error_msg:
  "str_split ''gcc -c foo.c'' = [''gcc'', ''-c'', ''foo.c'']
   \<and> endswith ''gcc'' ''gcc''
   \<and> \<not> isspace (hd ''gcc -c foo.c'')
   \<and> \<not> startswith ''gcc -c foo.c'' K_STARS
   \<and> \<not> startswith ''gcc -c foo.c'' K_MAKEDONE
   \<and> \<not> sublist K_PREPAR ''gcc -c foo.c''
   \<and> is_error_msg ''gcc -c foo.c'' = Inr True
   \<and> process True ''gcc -c foo.c'' = Inr (''gcc -c foo.c'', True)
   \<and> is_error_msg ''g++ -c foo.c'' = Inr False
   \<and> is_error_msg ''gcc-7 -c foo.c'' = Inr False"
  by code_simp

subsection \<open>Lines on which a handler raises\<close>

text \<open>
  Claim C3. \<open>process\<close> raises on lines that are not empty. The compile-only and the
  shared-library handlers read the token after \<^verbatim>\<open>-o\<close> without the test the other two
  make, so a line that ends with \<^verbatim>\<open>-o\<close> gives IndexError. The shared-library handler
  is chosen without any test for \<^verbatim>\<open>-o\<close>, the compile-only one tests for the piece
  \<^verbatim>\<open>-o\<close> anywhere in the line and the two link handlers for the piece \<^verbatim>\<open> -o\<close>,
  while all four look up the token \<^verbatim>\<open>-o\<close>: a line without that token gives
  ValueError.
\<close>

theorem handlers_raise:
  "get_processing_handler ''g++ -c foo.cc -o'' = Inr Compile_only
   \<and> process True ''g++ -c foo.cc -o'' = Inl IndexError
   \<and> get_processing_handler ''g++ -fPIC -shared a.o -o'' = Inr Convert_obj_to_so
   \<and> process True ''g++ -fPIC -shared a.o -o'' = Inl IndexError
   \<and> process True ''g++ -shared -fPIC a.o b.o'' = Inl ValueError
   \<and> get_processing_handler ''g++ -c foo-old.cc'' = Inr Compile_only
   \<and> process True ''g++ -c foo-old.cc'' = Inl ValueError
   \<and> get_processing_handler ''g++ main.cc -omain'' = Inr Compile_and_link
   \<and> process True ''g++ main.cc -omain'' = Inl ValueError
   \<and> get_processing_handler ''ld main.o -omain'' = Inr Link_only
   \<and> process True ''ld main.o -omain'' = Inl ValueError"
  by code_simp

end
